theory Spec2Isabelle
  imports Main
begin

section \<open>The packaging manifest \<open>setup.py\<close> of \<open>ply_processor\<close>\<close>

text \<open>
  The repository's source is one Python module, \<open>point-cloud-box-detection/setup.py\<close>:
  an import from \<open>setuptools\<close> followed by one call of \<open>setup\<close> with keyword
  arguments. The module is embedded as its abstract syntax, statement by statement, and
  given meaning by an evaluator for the fragment of Python it is written in. What the
  module obtains from outside, the list returned by \<open>find_packages()\<close> for the project
  root, is a parameter of the evaluator.
\<close>

subsection \<open>Abstract syntax\<close>

datatype expr =
    Str string
  | Name string
  | ListE "expr list"
  | Call expr "expr list" "(string \<times> expr) list"
  | Await expr
  | Yield expr

datatype stmt =
    ImportFrom string "string list"
  | Import string
  | Expr expr
  | Assign string expr
  | FunctionDef string "string list" "stmt list"
  | ClassDef string "stmt list"
  | If expr "stmt list" "stmt list"
  | While expr "stmt list"
  | For string expr "stmt list"

subsection \<open>Values, errors and the interpreter state\<close>

datatype builtin = Setup | FindPackages

datatype val = VNone | VStr string | VList "val list" | VBuiltin builtin

text \<open>
  \<open>TypeError\<close> is Python's exception for a call that does not fit its callee.
  \<open>Unsupported\<close> marks everything outside the fragment: a statement form the evaluator
  does not interpret, an expression that suspends its caller (\<open>await\<close>, \<open>yield\<close>),
  a name that was never bound by the module, a module or attribute other than the two
  names of \<open>setuptools\<close> the manifest imports.
\<close>

datatype error = TypeError | Unsupported

text \<open>
  The state holds the module's global names (the newest binding first) and the keyword
  arguments of every call of \<open>setup\<close> made so far, in call order.
\<close>

record state =
  env :: "(string \<times> val) list"
  calls :: "(string \<times> val) list list"

definition bind :: "string \<Rightarrow> val \<Rightarrow> state \<Rightarrow> state" where
  "bind x v s = s\<lparr>env := (x, v) # env s\<rparr>"

definition setuptools :: "string \<Rightarrow> builtin option" where
  "setuptools n =
     (if n = ''setup'' then Some Setup
      else if n = ''find_packages'' then Some FindPackages
      else None)"

subsection \<open>Evaluation\<close>

text \<open>
  A call: \<open>find_packages()\<close> without arguments returns the packages discovered under the
  project root (the parameter \<open>found\<close>); \<open>setup(**attrs)\<close> accepts keyword arguments only
  and records them; a value that is not a function cannot be called.
\<close>

fun call :: "string list \<Rightarrow> state \<Rightarrow> val \<Rightarrow> val list \<Rightarrow> (string \<times> val) list
    \<Rightarrow> error + val \<times> state" where
  "call found s (VBuiltin FindPackages) [] [] = Inr (VList (map VStr found), s)"
| "call found s (VBuiltin FindPackages) vs kvs = Inl Unsupported"
| "call found s (VBuiltin Setup) [] kvs = Inr (VNone, s\<lparr>calls := calls s @ [kvs]\<rparr>)"
| "call found s (VBuiltin Setup) vs kvs = Inl TypeError"
| "call found s f vs kvs = Inl TypeError"

text \<open>
  Python evaluates the callee first, then the positional arguments and then the keyword
  arguments, each from left to right; the first error ends the evaluation.
\<close>

fun eval :: "string list \<Rightarrow> state \<Rightarrow> expr \<Rightarrow> error + val \<times> state"
  and eval_args :: "string list \<Rightarrow> state \<Rightarrow> expr list \<Rightarrow> error + val list \<times> state"
  and eval_kwargs :: "string list \<Rightarrow> state \<Rightarrow> (string \<times> expr) list
    \<Rightarrow> error + (string \<times> val) list \<times> state" where
  "eval found s (Str x) = Inr (VStr x, s)"
| "eval found s (Name x) =
     (case map_of (env s) x of None \<Rightarrow> Inl Unsupported | Some v \<Rightarrow> Inr (v, s))"
| "eval found s (ListE es) =
     (case eval_args found s es of
        Inl e \<Rightarrow> Inl e
      | Inr (vs, s1) \<Rightarrow> Inr (VList vs, s1))"
| "eval found s (Call f args kws) =
     (case eval found s f of
        Inl e \<Rightarrow> Inl e
      | Inr (fv, s1) \<Rightarrow>
          (case eval_args found s1 args of
             Inl e \<Rightarrow> Inl e
           | Inr (vs, s2) \<Rightarrow>
               (case eval_kwargs found s2 kws of
                  Inl e \<Rightarrow> Inl e
                | Inr (kvs, s3) \<Rightarrow> call found s3 fv vs kvs)))"
| "eval found s (Await e) = Inl Unsupported"
| "eval found s (Yield e) = Inl Unsupported"
| "eval_args found s [] = Inr ([], s)"
| "eval_args found s (a # as) =
     (case eval found s a of
        Inl e \<Rightarrow> Inl e
      | Inr (v, s1) \<Rightarrow>
          (case eval_args found s1 as of
             Inl e \<Rightarrow> Inl e
           | Inr (vs, s2) \<Rightarrow> Inr (v # vs, s2)))"
| "eval_kwargs found s [] = Inr ([], s)"
| "eval_kwargs found s ((k, a) # kws) =
     (case eval found s a of
        Inl e \<Rightarrow> Inl e
      | Inr (v, s1) \<Rightarrow>
          (case eval_kwargs found s1 kws of
             Inl e \<Rightarrow> Inl e
           | Inr (kvs, s2) \<Rightarrow> Inr ((k, v) # kvs, s2)))"

fun import_from :: "state \<Rightarrow> string \<Rightarrow> string list \<Rightarrow> error + state" where
  "import_from s m [] = Inr s"
| "import_from s m (n # ns) =
     (if m \<noteq> ''setuptools'' then Inl Unsupported
      else case setuptools n of
             None \<Rightarrow> Inl Unsupported
           | Some b \<Rightarrow> import_from (bind n (VBuiltin b) s) m ns)"

fun exec_stmt :: "string list \<Rightarrow> state \<Rightarrow> stmt \<Rightarrow> error + state" where
  "exec_stmt found s (ImportFrom m ns) = import_from s m ns"
| "exec_stmt found s (Expr e) =
     (case eval found s e of Inl x \<Rightarrow> Inl x | Inr (v, s1) \<Rightarrow> Inr s1)"
| "exec_stmt found s (Assign x e) =
     (case eval found s e of Inl x \<Rightarrow> Inl x | Inr (v, s1) \<Rightarrow> Inr (bind x v s1))"
| "exec_stmt found s other = Inl Unsupported"

fun exec_stmts :: "string list \<Rightarrow> state \<Rightarrow> stmt list \<Rightarrow> error + state" where
  "exec_stmts found s [] = Inr s"
| "exec_stmts found s (c # cs) =
     (case exec_stmt found s c of Inl x \<Rightarrow> Inl x | Inr s1 \<Rightarrow> exec_stmts found s1 cs)"

subsection \<open>The module\<close>

definition setup_py :: "stmt list" where
  "setup_py =
     [ImportFrom ''setuptools'' [''setup'', ''find_packages''],
      Expr (Call (Name ''setup'') []
        [(''name'', Str ''ply_processor''),
         (''version'', Str ''0.1.0''),
         (''packages'', Call (Name ''find_packages'') [] []),
         (''install_requires'', ListE
            [Str ''open3d==0.18.0'',
             Str ''numpy==1.26.4'',
             Str ''matplotlib==3.9.2'',
             Str ''matplotlib-inline==0.1.7'']),
         (''author'', Str ''Chen Xu''),
         (''author_email'', Str ''cxu.self@gmail.com''),
         (''description'', Str
            ''A module for processing point clouds with plane fitting and bounding boxes''),
         (''classifiers'', ListE
            [Str ''Programming Language :: Python :: 3'',
             Str ''Operating System :: OS Independent'']),
         (''python_requires'', Str ''>=3.6'')])]"

definition repository :: "(string \<times> stmt list) list" where
  "repository = [(''point-cloud-box-detection/setup.py'', setup_py)]"

text \<open>Evaluating the module from the empty state, in a project where
  \<open>find_packages()\<close> returns \<open>found\<close>.\<close>

definition run :: "string list \<Rightarrow> error + state" where
  "run found = exec_stmts found \<lparr>env = [], calls = []\<rparr> setup_py"

text \<open>The keyword arguments of each call of \<open>setup\<close> the evaluation made (none when it
  ends in an error).\<close>

definition setup_args :: "string list \<Rightarrow> (string \<times> val) list list" where
  "setup_args found = (case run found of Inl e \<Rightarrow> [] | Inr s \<Rightarrow> calls s)"

text \<open>Every value passed under keyword \<open>k\<close>, so that an absent keyword gives \<open>[]\<close>.\<close>

definition values_of :: "string \<Rightarrow> (string \<times> val) list \<Rightarrow> val list" where
  "values_of k kvs = map snd (filter (\<lambda>kv. fst kv = k) kvs)"

subsection \<open>Reading the module's syntax\<close>

text \<open>
  The claims about what the module does not contain are stated over its syntax tree:
  every expression with all its subexpressions, every statement with all the statements
  nested in it, each in source order.
\<close>

fun sub_exprs :: "expr \<Rightarrow> expr list" where
  "sub_exprs (Str x) = [Str x]"
| "sub_exprs (Name x) = [Name x]"
| "sub_exprs (ListE es) = ListE es # concat (map sub_exprs es)"
| "sub_exprs (Call f args kws) =
     Call f args kws # sub_exprs f @ concat (map sub_exprs args)
       @ concat (map (\<lambda>kw. sub_exprs (snd kw)) kws)"
| "sub_exprs (Await e) = Await e # sub_exprs e"
| "sub_exprs (Yield e) = Yield e # sub_exprs e"

fun stmt_exprs :: "stmt \<Rightarrow> expr list" where
  "stmt_exprs (Expr e) = [e]"
| "stmt_exprs (Assign x e) = [e]"
| "stmt_exprs (If c t e) = [c]"
| "stmt_exprs (While c b) = [c]"
| "stmt_exprs (For x e b) = [e]"
| "stmt_exprs other = []"

fun sub_stmts :: "stmt \<Rightarrow> stmt list" where
  "sub_stmts (FunctionDef n ps b) = FunctionDef n ps b # concat (map sub_stmts b)"
| "sub_stmts (ClassDef n b) = ClassDef n b # concat (map sub_stmts b)"
| "sub_stmts (If c t e) = If c t e # concat (map sub_stmts t) @ concat (map sub_stmts e)"
| "sub_stmts (While c b) = While c b # concat (map sub_stmts b)"
| "sub_stmts (For x e b) = For x e b # concat (map sub_stmts b)"
| "sub_stmts other = [other]"

definition statements :: "stmt list \<Rightarrow> stmt list" where
  "statements m = concat (map sub_stmts m)"

definition expressions :: "stmt list \<Rightarrow> expr list" where
  "expressions m = concat (map sub_exprs (concat (map stmt_exprs (statements m))))"

fun is_definition :: "stmt \<Rightarrow> bool" where
  "is_definition (FunctionDef n ps b) = True"
| "is_definition (ClassDef n b) = True"
| "is_definition other = False"

fun is_control_flow :: "stmt \<Rightarrow> bool" where
  "is_control_flow (If c t e) = True"
| "is_control_flow (While c b) = True"
| "is_control_flow (For x e b) = True"
| "is_control_flow other = False"

fun is_assignment :: "stmt \<Rightarrow> bool" where
  "is_assignment (Assign x e) = True"
| "is_assignment other = False"

fun is_list_literal :: "expr \<Rightarrow> bool" where
  "is_list_literal (ListE es) = True"
| "is_list_literal other = False"

fun is_call_of :: "string \<Rightarrow> expr \<Rightarrow> bool" where
  "is_call_of g (Call (Name f) args kws) = (f = g)"
| "is_call_of g other = False"

fun call_args :: "expr \<Rightarrow> expr list" where
  "call_args (Call f args kws) = args"
| "call_args other = []"

fun call_kwargs :: "expr \<Rightarrow> (string \<times> expr) list" where
  "call_kwargs (Call f args kws) = kws"
| "call_kwargs other = []"

fun names_of :: "expr \<Rightarrow> string list" where
  "names_of (Name x) = [x]"
| "names_of other = []"

fun imports_of :: "stmt \<Rightarrow> (string \<times> string list) list" where
  "imports_of (ImportFrom m ns) = [(m, ns)]"
| "imports_of (Import m) = [(m, [])]"
| "imports_of other = []"



subsection \<open>Reading requirement and version specifiers\<close>

text \<open>
  The number of positions of a string at which a given text starts, the pieces of a
  string between commas (the clauses of a version specifier), and the project name of a
  requirement: the text before the first operator character.
\<close>

definition starts_with :: "string \<Rightarrow> string \<Rightarrow> bool" where
  "starts_with p s = (take (length p) s = p)"

fun occurrences :: "string \<Rightarrow> string \<Rightarrow> nat" where
  "occurrences p [] = 0"
| "occurrences p (c # cs) = (if starts_with p (c # cs) then 1 else 0) + occurrences p cs"

fun split_on :: "char \<Rightarrow> string \<Rightarrow> string list" where
  "split_on d [] = [[]]"
| "split_on d (c # cs) =
     (if c = d then [] # split_on d cs
      else case split_on d cs of [] \<Rightarrow> [[c]] | p # ps \<Rightarrow> (c # p) # ps)"

definition requirement_name :: "string \<Rightarrow> string" where
  "requirement_name r = takeWhile (\<lambda>c. c \<notin> set ''=<>~!'') r"

definition range_operators :: "string list" where
  "range_operators = [''>='', ''<='', ''>'', ''<'', ''~='', ''!='']"

section \<open>What evaluating the manifest does\<close>

text \<open>
  Whatever \<open>find_packages()\<close> returns, the evaluation succeeds, calls \<open>setup\<close> once and
  passes it these nine keyword arguments, in this order.
\<close>

lemma setup_args_eq:
  "setup_args found =
     [[(''name'', VStr ''ply_processor''),
       (''version'', VStr ''0.1.0''),
       (''packages'', VList (map VStr found)),
       (''install_requires'', VList
          [VStr ''open3d==0.18.0'',
           VStr ''numpy==1.26.4'',
           VStr ''matplotlib==3.9.2'',
           VStr ''matplotlib-inline==0.1.7'']),
       (''author'', VStr ''Chen Xu''),
       (''author_email'', VStr ''cxu.self@gmail.com''),
       (''description'', VStr
          ''A module for processing point clouds with plane fitting and bounding boxes''),
       (''classifiers'', VList
          [VStr ''Programming Language :: Python :: 3'',
           VStr ''Operating System :: OS Independent'']),
       (''python_requires'', VStr ''>=3.6'')]]"
  by (simp add: setup_args_def run_def setup_py_def setuptools_def bind_def)

text \<open>No statement of the module has a body, so its statements are the two at top level.\<close>

lemma statements_setup_py: "statements setup_py = setup_py"
  by (simp add: statements_def setup_py_def)

text \<open>The expressions of the module, with their subexpressions, in source order.\<close>

lemma expressions_setup_py:
  "expressions setup_py =
     [Call (Name ''setup'') []
        [(''name'', Str ''ply_processor''),
         (''version'', Str ''0.1.0''),
         (''packages'', Call (Name ''find_packages'') [] []),
         (''install_requires'', ListE
            [Str ''open3d==0.18.0'',
             Str ''numpy==1.26.4'',
             Str ''matplotlib==3.9.2'',
             Str ''matplotlib-inline==0.1.7'']),
         (''author'', Str ''Chen Xu''),
         (''author_email'', Str ''cxu.self@gmail.com''),
         (''description'', Str
            ''A module for processing point clouds with plane fitting and bounding boxes''),
         (''classifiers'', ListE
            [Str ''Programming Language :: Python :: 3'',
             Str ''Operating System :: OS Independent'']),
         (''python_requires'', Str ''>=3.6'')],
      Name ''setup'',
      Str ''ply_processor'',
      Str ''0.1.0'',
      Call (Name ''find_packages'') [] [],
      Name ''find_packages'',
      ListE
        [Str ''open3d==0.18.0'',
         Str ''numpy==1.26.4'',
         Str ''matplotlib==3.9.2'',
         Str ''matplotlib-inline==0.1.7''],
      Str ''open3d==0.18.0'',
      Str ''numpy==1.26.4'',
      Str ''matplotlib==3.9.2'',
      Str ''matplotlib-inline==0.1.7'',
      Str ''Chen Xu'',
      Str ''cxu.self@gmail.com'',
      Str ''A module for processing point clouds with plane fitting and bounding boxes'',
      ListE
        [Str ''Programming Language :: Python :: 3'',
         Str ''Operating System :: OS Independent''],
      Str ''Programming Language :: Python :: 3'',
      Str ''Operating System :: OS Independent'',
      Str ''>=3.6'']"
  by (simp add: expressions_def statements_setup_py) (simp add: setup_py_def)

section \<open>The declared metadata\<close>

text \<open>
  C1. The one call of \<open>setup\<close> passes \<open>install_requires\<close> once, and its value is the list
  of the four pins \<open>open3d==0.18.0\<close>, \<open>numpy==1.26.4\<close>, \<open>matplotlib==3.9.2\<close>,
  \<open>matplotlib-inline==0.1.7\<close> in that order. No further dependency is declared: the
  call has no \<open>extras_require\<close>, \<open>setup_requires\<close> or \<open>tests_require\<close> argument.
\<close>

theorem install_requires_exact:
  "map (values_of ''install_requires'') (setup_args found) =
     [[VList [VStr ''open3d==0.18.0'', VStr ''numpy==1.26.4'',
              VStr ''matplotlib==3.9.2'', VStr ''matplotlib-inline==0.1.7'']]]
   \<and> map (values_of ''extras_require'') (setup_args found) = [[]]
   \<and> map (values_of ''setup_requires'') (setup_args found) = [[]]
   \<and> map (values_of ''tests_require'') (setup_args found) = [[]]"
  by (simp add: setup_args_eq values_of_def)

text \<open>
  C2. The package name passed to \<open>setup\<close> is \<open>ply_processor\<close> and the version is
  \<open>0.1.0\<close>; each is passed exactly once.
\<close>

theorem name_and_version:
  "map (values_of ''name'') (setup_args found) = [[VStr ''ply_processor'']]
   \<and> map (values_of ''version'') (setup_args found) = [[VStr ''0.1.0'']]"
  by (simp add: setup_args_eq values_of_def)

text \<open>
  C3. \<open>python_requires\<close> is passed exactly once and is the string \<open>>=3.6\<close>. That
  specifier is a single clause (it has no comma), the clause starts with the operator
  \<open>>=\<close>, and it contains none of \<open><\<close>, \<open>==\<close>, \<open>~=\<close>, \<open>!=\<close>: a lower bound
  and nothing else, in particular no upper bound.
\<close>

theorem python_requires_lower_bound_only:
  "map (values_of ''python_requires'') (setup_args found) = [[VStr ''>=3.6'']]
   \<and> split_on CHR '','' ''>=3.6'' = [''>=3.6'']
   \<and> starts_with ''>='' ''>=3.6''
   \<and> map (\<lambda>p. occurrences p ''>=3.6'') [''<'', ''=='', ''~='', ''!=''] = [0, 0, 0, 0]"
  by (simp add: setup_args_eq values_of_def starts_with_def)

text \<open>
  C4. \<open>classifiers\<close> is passed exactly once and is the list of the two tags
  \<open>Programming Language :: Python :: 3\<close> and \<open>Operating System :: OS Independent\<close>.
\<close>

theorem classifiers_exact:
  "map (values_of ''classifiers'') (setup_args found) =
     [[VList [VStr ''Programming Language :: Python :: 3'',
              VStr ''Operating System :: OS Independent'']]]"
  by (simp add: setup_args_eq values_of_def)

text \<open>
  C9. \<open>description\<close> is passed exactly once and is the string
  \<open>A module for processing point clouds with plane fitting and bounding boxes\<close>.
\<close>

theorem description_exact:
  "map (values_of ''description'') (setup_args found) =
     [[VStr ''A module for processing point clouds with plane fitting and bounding boxes'']]"
  by (simp add: setup_args_eq values_of_def)

text \<open>
  C10. Every entry of \<open>install_requires\<close> is an exact pin: in each of the four strings
  \<open>==\<close> starts at exactly one position and none of \<open>>=\<close>, \<open><=\<close>, \<open>>\<close>, \<open><\<close>,
  \<open>~=\<close>, \<open>!=\<close> occurs, and the four project names are pairwise distinct.
\<close>

theorem install_requires_exact_pins:
  "\<exists>reqs. map (values_of ''install_requires'') (setup_args found) = [[VList (map VStr reqs)]]
     \<and> length reqs = 4
     \<and> map (occurrences ''=='') reqs = [1, 1, 1, 1]
     \<and> map (\<lambda>r. map (\<lambda>p. occurrences p r) range_operators) reqs =
         [[0, 0, 0, 0, 0, 0], [0, 0, 0, 0, 0, 0], [0, 0, 0, 0, 0, 0], [0, 0, 0, 0, 0, 0]]
     \<and> distinct (map requirement_name reqs)"
  by (rule exI [of _ "[''open3d==0.18.0'', ''numpy==1.26.4'', ''matplotlib==3.9.2'',
        ''matplotlib-inline==0.1.7'']"])
    (simp add: setup_args_eq values_of_def starts_with_def range_operators_def
      requirement_name_def)

section \<open>What the manifest does not contain\<close>

text \<open>
  C5. The call of \<open>setup\<close> has exactly the nine keywords \<open>name\<close>, \<open>version\<close>,
  \<open>packages\<close>, \<open>install_requires\<close>, \<open>author\<close>, \<open>author_email\<close>, \<open>description\<close>,
  \<open>classifiers\<close>, \<open>python_requires\<close>, so none of \<open>entry_points\<close>, \<open>scripts\<close>,
  \<open>console_scripts\<close>, \<open>package_data\<close>, \<open>data_files\<close> is passed. The module imports
  only \<open>setup\<close> and \<open>find_packages\<close> from \<open>setuptools\<close> and refers to no other name, so
  it has no access to the process environment and opens no file.
\<close>

theorem no_interfaces_declared:
  "map (map fst) (setup_args found) =
     [[''name'', ''version'', ''packages'', ''install_requires'', ''author'',
       ''author_email'', ''description'', ''classifiers'', ''python_requires'']]
   \<and> map (\<lambda>kvs. map (\<lambda>k. values_of k kvs)
          [''entry_points'', ''scripts'', ''console_scripts'', ''package_data'', ''data_files''])
        (setup_args found) = [[[], [], [], [], []]]
   \<and> concat (map imports_of (statements setup_py)) =
        [(''setuptools'', [''setup'', ''find_packages''])]
   \<and> concat (map names_of (expressions setup_py)) = [''setup'', ''find_packages'']"
  by (simp add: setup_args_eq values_of_def expressions_setup_py statements_setup_py)
    (simp add: setup_py_def)

text \<open>
  C6. The repository's source is the one file \<open>setup.py\<close>. The module has two
  statements, none of them a function or class definition, a conditional, a loop or an
  assignment; it calls \<open>setup\<close> at one place; and its only data structures, the list
  literals, are arguments of that call.
\<close>

theorem manifest_only_no_logic:
  "map fst repository = [''point-cloud-box-detection/setup.py'']
   \<and> map snd repository = [setup_py]
   \<and> length (statements setup_py) = 2
   \<and> filter is_definition (statements setup_py) = []
   \<and> filter is_control_flow (statements setup_py) = []
   \<and> filter is_assignment (statements setup_py) = []
   \<and> length (filter (is_call_of ''setup'') (expressions setup_py)) = 1
   \<and> filter is_list_literal (expressions setup_py) =
       filter is_list_literal
         (concat (map (\<lambda>e. call_args e @ map snd (call_kwargs e))
            (filter (is_call_of ''setup'') (expressions setup_py))))"
  by (simp add: repository_def expressions_setup_py statements_setup_py)
    (simp add: setup_py_def)

text \<open>
  C7. Package discovery is automatic. In the source the \<open>packages\<close> argument of the
  \<open>setup\<close> call is the expression \<open>find_packages()\<close>, called without arguments, and
  the value passed is whatever list \<open>find_packages()\<close> returns for the project, not a
  fixed list of names.
\<close>

theorem packages_discovered_automatically:
  "map (\<lambda>e. map snd (filter (\<lambda>kw. fst kw = ''packages'') (call_kwargs e)))
     (filter (is_call_of ''setup'') (expressions setup_py)) =
     [[Call (Name ''find_packages'') [] []]]
   \<and> map (values_of ''packages'') (setup_args found) = [[VList (map VStr found)]]"
  by (simp add: expressions_setup_py setup_args_eq values_of_def)

section \<open>Two evaluations of the manifest\<close>



end
